theory Spec2Isabelle
  imports Complex_Main "HOL-Library.Monad_Syntax"
begin

section \<open>Request bodies and the schema of \<open>POST /api/research\<close>\<close>

text \<open>
  \<open>express.json()\<close> hands the route a parsed JSON value. A JavaScript number is
  modelled by the real it denotes: the schema only compares it with constant bounds, and
  the infinities that \<open>JSON.parse\<close> can produce fail every bounded check below, as any
  real beyond the bound does.
\<close>

datatype json =
    JNull
  | JBool bool
  | JNum real
  | JStr string
  | JArr "json list"
  | JObj "(string \<times> json) list"

text \<open>Property lookup on a parsed object: of two equal keys the later one is kept.\<close>

definition getProp :: "(string \<times> json) list \<Rightarrow> string \<Rightarrow> json option" where
  "getProp kvs k = map_of (rev kvs) k"

text \<open>
  The checks of \<open>startResearchSchema\<close> (server.ts, lines 14-27). Each returns
  \<open>None\<close> where zod raises an issue; for an optional field the inner option is the
  parsed value, \<open>None\<close> standing for \<open>undefined\<close>.
\<close>

fun z_string_min1 :: "json option \<Rightarrow> string option" where
  "z_string_min1 (Some (JStr x)) = (if 1 \<le> length x then Some x else None)"
| "z_string_min1 _ = None"

fun z_string_optional :: "json option \<Rightarrow> string option option" where
  "z_string_optional None = Some None"
| "z_string_optional (Some (JStr x)) = Some (Some x)"
| "z_string_optional _ = None"

fun z_url_optional :: "(string \<Rightarrow> bool) \<Rightarrow> json option \<Rightarrow> string option option" where
  "z_url_optional isUrl None = Some None"
| "z_url_optional isUrl (Some (JStr x)) = (if isUrl x then Some (Some x) else None)"
| "z_url_optional isUrl _ = None"

fun z_number_optional :: "real \<Rightarrow> real \<Rightarrow> json option \<Rightarrow> real option option" where
  "z_number_optional lo hi None = Some None"
| "z_number_optional lo hi (Some (JNum n)) = (if lo \<le> n \<and> n \<le> hi then Some (Some n) else None)"
| "z_number_optional lo hi _ = None"

record ModelConfig =
  name :: "string option"
  endpoint :: "string option"
  contextSize :: "real option"

fun z_model_optional :: "(string \<Rightarrow> bool) \<Rightarrow> json option \<Rightarrow> ModelConfig option option" where
  "z_model_optional isUrl None = Some None"
| "z_model_optional isUrl (Some (JObj kvs)) =
     do {
       n \<leftarrow> z_string_optional (getProp kvs ''name'');
       e \<leftarrow> z_url_optional isUrl (getProp kvs ''endpoint'');
       c \<leftarrow> z_number_optional 1000 1000000 (getProp kvs ''contextSize'');
       Some (Some \<lparr>name = n, endpoint = e, contextSize = c\<rparr>)
     }"
| "z_model_optional isUrl _ = None"

text \<open>
  \<open>StartResearchRequest\<close> (types/api.ts). The fields carry the prefix \<open>rq_\<close> because
  the session and the research call have fields of the same names.
\<close>

record StartResearchRequest =
  rq_query :: string
  rq_breadth :: "real option"
  rq_depth :: "real option"
  rq_additionalNotes :: "string option"
  rq_mainPromptNotes :: "string option"
  rq_model :: "ModelConfig option"
  rq_concurrency :: "real option"
  rq_followUpQuestions :: "real option"

text \<open>\<open>startResearchSchema.parse\<close>: \<open>None\<close> is the thrown \<open>ZodError\<close>.\<close>

fun startResearchSchema_parse :: "(string \<Rightarrow> bool) \<Rightarrow> json \<Rightarrow> StartResearchRequest option" where
  "startResearchSchema_parse isUrl (JObj kvs) =
     do {
       q \<leftarrow> z_string_min1 (getProp kvs ''query'');
       b \<leftarrow> z_number_optional 1 10 (getProp kvs ''breadth'');
       d \<leftarrow> z_number_optional 1 5 (getProp kvs ''depth'');
       an \<leftarrow> z_string_optional (getProp kvs ''additionalNotes'');
       mn \<leftarrow> z_string_optional (getProp kvs ''mainPromptNotes'');
       m \<leftarrow> z_model_optional isUrl (getProp kvs ''model'');
       c \<leftarrow> z_number_optional 1 10 (getProp kvs ''concurrency'');
       f \<leftarrow> z_number_optional 1 10 (getProp kvs ''followUpQuestions'');
       Some \<lparr>rq_query = q, rq_breadth = b, rq_depth = d, rq_additionalNotes = an,
             rq_mainPromptNotes = mn, rq_model = m, rq_concurrency = c,
             rq_followUpQuestions = f\<rparr>
     }"
| "startResearchSchema_parse isUrl _ = None"

section \<open>Sessions, progress snapshots and live-channel messages (types/api.ts)\<close>

datatype status = Pending | InProgress | Completed | Error

text \<open>
  \<open>ResearchProgress\<close> is declared in deep-research.ts; its fields are those that
  server.ts writes when it synthesises a snapshot (line 111).
\<close>

record ResearchProgress =
  currentDepth :: real
  totalDepth :: real
  currentBreadth :: real
  totalBreadth :: real
  currentQuery :: "string option"
  totalQueries :: real
  completedQueries :: real

text \<open>What \<open>deepResearch\<close> resolves with, and the session's \<open>results\<close> object
  \<open>{...results, report}\<close>.\<close>

record ResearchResult =
  learnings :: "string list"
  visitedUrls :: "string list"

record SessionResults = ResearchResult +
  report :: "string option"

record ResearchSession =
  s_id :: string
  s_status :: status
  s_query :: string
  s_breadth :: real
  s_depth :: real
  s_additionalNotes :: "string option"
  s_mainPromptNotes :: "string option"
  s_progress :: "ResearchProgress option"
  s_results :: "SessionResults option"
  s_error :: "string option"
  s_createdAt :: nat
  s_updatedAt :: nat

text \<open>
  \<open>ProgressUpdate\<close>, the tagged message sent over a socket. The declared type of the
  \<open>data\<close> of a \<open>progress\<close> message is \<open>ResearchProgress\<close>; the value put on the wire
  is whatever the handler read, which can be \<open>null\<close> (\<open>session.progress!\<close> asserts a
  type and checks nothing), hence the option. The \<open>error\<close> of an \<open>error\<close> message is
  the \<open>message\<close> property of whatever the promise was rejected with, which a value
  other than an \<open>Error\<close> need not have.
\<close>

datatype ProgressUpdate =
    UProgress "ResearchProgress option"
  | UCompleted SessionResults
  | UError "string option"

section \<open>The server state\<close>

type_synonym ws = nat

text \<open>The arguments of the call to \<open>deepResearch\<close> (lines 189-197) and of the call to
  \<open>writeFinalReport\<close> (lines 199-204).\<close>

record DeepResearchArgs =
  dr_query :: string
  dr_breadth :: real
  dr_depth :: real
  dr_model :: "ModelConfig option"
  dr_concurrency :: "real option"
  dr_followUpQuestions :: "real option"

record WriteFinalReportArgs =
  wr_prompt :: string
  wr_learnings :: "string list"
  wr_visitedUrls :: "string list"
  wr_model :: "ModelConfig option"

text \<open>
  \<open>sessions\<close> and \<open>progressSubscribers\<close> are the two module-level maps. A JavaScript
  \<open>Set\<close> iterates in insertion order, so a subscriber set is a list without repetition.
  The effects on the outside are logged in order: \<open>sent\<close> for \<open>ws.send\<close>, \<open>closed\<close>
  for \<open>ws.close(code, reason)\<close>, \<open>tasks\<close> for the research launched for a session
  (the values its promise callbacks close over), \<open>reportCalls\<close> for the calls to
  \<open>writeFinalReport\<close>. \<open>clock\<close> is what \<open>new Date()\<close> reads.
  \<open>ws.send\<close> is taken not to throw: a socket in a subscriber set has completed its
  handshake, and a send to a socket that is closing is dropped by the socket.
\<close>

record state =
  sessions :: "string \<rightharpoonup> ResearchSession"
  progressSubscribers :: "string \<rightharpoonup> ws list"
  sent :: "(ws \<times> ProgressUpdate) list"
  closed :: "(ws \<times> nat \<times> string) list"
  tasks :: "string \<rightharpoonup> DeepResearchArgs"
  reportCalls :: "(string \<times> WriteFinalReportArgs) list"
  clock :: nat

definition initialState :: state where
  "initialState = \<lparr>sessions = Map.empty, progressSubscribers = Map.empty, sent = [],
     closed = [], tasks = Map.empty, reportCalls = [], clock = 0\<rparr>"

text \<open>The process environment: \<open>process.env.API_KEY\<close>, and the URL test behind
  \<open>z.string().url()\<close>, which belongs to the zod library.\<close>

record env =
  API_KEY :: "string option"
  isUrl :: "string \<Rightarrow> bool"

definition ws_send :: "ws \<Rightarrow> ProgressUpdate \<Rightarrow> state \<Rightarrow> state" where
  "ws_send w u s = s\<lparr>sent := sent s @ [(w, u)]\<rparr>"

definition ws_close :: "ws \<Rightarrow> nat \<Rightarrow> string \<Rightarrow> state \<Rightarrow> state" where
  "ws_close w code reason s = s\<lparr>closed := closed s @ [(w, code, reason)]\<rparr>"

text \<open>The messages a socket has been sent, in order.\<close>

definition received :: "state \<Rightarrow> ws \<Rightarrow> ProgressUpdate list" where
  "received s w = map snd (filter (\<lambda>m. fst m = w) (sent s))"

definition subscribersOf :: "state \<Rightarrow> string \<Rightarrow> ws list" where
  "subscribersOf s sessionId =
     (case progressSubscribers s sessionId of None \<Rightarrow> [] | Some subs \<Rightarrow> subs)"

text \<open>
  The fan-out that four handlers share:
  \<open>const subscribers = progressSubscribers.get(sessionId);
    if (subscribers) subscribers.forEach(ws => ws.send(JSON.stringify(update)))\<close>.
\<close>

definition broadcast :: "string \<Rightarrow> ProgressUpdate \<Rightarrow> state \<Rightarrow> state" where
  "broadcast sessionId u s =
     (case progressSubscribers s sessionId of
        None \<Rightarrow> s
      | Some subs \<Rightarrow> s\<lparr>sent := sent s @ map (\<lambda>w. (w, u)) subs\<rparr>)"

section \<open>Authentication (server.ts, lines 29-54)\<close>

datatype response =
    HttpError nat string
  | HttpCreated string status
  | HttpSession string status "ResearchProgress option" "SessionResults option" "string option"

text \<open>The middleware: \<open>Some\<close> is the response that ends the request, \<open>None\<close> is
  \<open>next()\<close>. An empty string is falsy.\<close>

definition authenticate :: "env \<Rightarrow> string option \<Rightarrow> response option" where
  "authenticate e apiKey =
     (case API_KEY e of
        None \<Rightarrow> Some (HttpError 500 ''Server configuration error'')
      | Some expectedApiKey \<Rightarrow>
          if expectedApiKey = [] then Some (HttpError 500 ''Server configuration error'')
          else (case apiKey of
                  None \<Rightarrow> Some (HttpError 401 ''Invalid API key'')
                | Some k \<Rightarrow>
                    if k = [] then Some (HttpError 401 ''Invalid API key'')
                    else if k = expectedApiKey then None
                    else Some (HttpError 401 ''Invalid API key'')))"

definition authenticateWs :: "env \<Rightarrow> string option \<Rightarrow> bool" where
  "authenticateWs e apiKey =
     (case API_KEY e of
        None \<Rightarrow> False
      | Some expectedApiKey \<Rightarrow>
          (case apiKey of
             None \<Rightarrow> False
           | Some k \<Rightarrow> expectedApiKey \<noteq> [] \<and> k \<noteq> [] \<and> k = expectedApiKey))"

section \<open>The WebSocket connection handler (server.ts, lines 82-129)\<close>

text \<open>
  What \<open>new URL(req.url, ...)\<close> followed by \<open>searchParams.get('sessionId')\<close> gives:
  the constructor throws on a malformed URL, and \<open>get\<close> returns \<open>null\<close> when the
  parameter is absent.
\<close>

datatype urlQuery = UrlError | UrlParams "string option"

definition addSubscriber :: "string \<Rightarrow> ws \<Rightarrow> state \<Rightarrow> state" where
  "addSubscriber sessionId w s =
     (let subscribers = (case progressSubscribers s sessionId of None \<Rightarrow> [] | Some subs \<Rightarrow> subs)
      in s\<lparr>progressSubscribers := (progressSubscribers s)
              (sessionId \<mapsto> (if w \<in> set subscribers then subscribers else subscribers @ [w]))\<rparr>)"

definition initialUpdate :: "ResearchSession \<Rightarrow> ProgressUpdate" where
  "initialUpdate session =
     (case s_results session of
        Some r \<Rightarrow> UCompleted r
      | None \<Rightarrow>
          (case s_progress session of
             Some p \<Rightarrow> UProgress (Some p)
           | None \<Rightarrow> UProgress (Some \<lparr>currentDepth = 0, totalDepth = s_depth session,
                        currentBreadth = 0, totalBreadth = s_breadth session,
                        currentQuery = None, totalQueries = 0, completedQueries = 0\<rparr>)))"

definition wsConnection :: "env \<Rightarrow> ws \<Rightarrow> string option \<Rightarrow> urlQuery \<Rightarrow> state \<Rightarrow> state" where
  "wsConnection e w apiKey url s =
     (if \<not> authenticateWs e apiKey then ws_close w 1008 ''Invalid API key'' s
      else case url of
        UrlError \<Rightarrow> ws_close w 1011 ''Internal server error'' s
      | UrlParams None \<Rightarrow> ws_close w 1008 ''Invalid session ID'' s
      | UrlParams (Some sessionId) \<Rightarrow>
          if sessionId = [] then ws_close w 1008 ''Invalid session ID'' s
          else (case sessions s sessionId of
                  None \<Rightarrow> ws_close w 1008 ''Invalid session ID'' s
                | Some session \<Rightarrow> ws_send w (initialUpdate session) (addSubscriber sessionId w s)))"

text \<open>The \<open>close\<close> listener registered for an attached socket (lines 116-124).\<close>

definition wsOnClose :: "string \<Rightarrow> ws \<Rightarrow> state \<Rightarrow> state" where
  "wsOnClose sessionId w s =
     (case progressSubscribers s sessionId of
        None \<Rightarrow> s
      | Some subs \<Rightarrow>
          if removeAll w subs = []
          then s\<lparr>progressSubscribers := (progressSubscribers s)(sessionId := None)\<rparr>
          else s\<lparr>progressSubscribers := (progressSubscribers s)(sessionId \<mapsto> removeAll w subs)\<rparr>)"

section \<open>The output manager (output-manager.ts)\<close>

text \<open>
  A callback is a state transformer. Only the callbacks are modelled: the terminal
  rendering of the non-headless mode writes to \<open>stdout\<close> and touches no server state.
\<close>

record 's OutputManager =
  headless :: bool
  onOutput :: "(string \<Rightarrow> 's \<Rightarrow> 's) option"
  onProgress :: "(ResearchProgress \<Rightarrow> 's \<Rightarrow> 's) option"

definition OutputManager_log :: "'s OutputManager \<Rightarrow> string \<Rightarrow> 's \<Rightarrow> 's" where
  "OutputManager_log om message s =
     (case onOutput om of Some f \<Rightarrow> f message s | None \<Rightarrow> s)"

definition OutputManager_updateProgress :: "'s OutputManager \<Rightarrow> ResearchProgress \<Rightarrow> 's \<Rightarrow> 's" where
  "OutputManager_updateProgress om progress s =
     (case onProgress om of Some f \<Rightarrow> f progress s | None \<Rightarrow> s)"

section \<open>Creating a session and running its research (server.ts, lines 132-243)\<close>

text \<open>
  The handlers close over the session object stored under \<open>sessionId\<close>. Sessions are
  never removed and an identifier is drawn afresh for each, so that object is the entry of
  \<open>sessions\<close>; a handler whose session is missing (which the code cannot reach) leaves
  the state as it is.
\<close>

definition session_onOutput :: "string \<Rightarrow> string \<Rightarrow> state \<Rightarrow> state" where
  "session_onOutput sessionId message s =
     (case sessions s sessionId of
        None \<Rightarrow> s
      | Some session \<Rightarrow> broadcast sessionId (UProgress (s_progress session)) s)"

definition session_onProgress :: "string \<Rightarrow> ResearchProgress \<Rightarrow> state \<Rightarrow> state" where
  "session_onProgress sessionId progress s =
     (case sessions s sessionId of
        None \<Rightarrow> s
      | Some session \<Rightarrow>
          broadcast sessionId (UProgress (Some progress))
            (s\<lparr>sessions := (sessions s)(sessionId \<mapsto>
                 session\<lparr>s_progress := Some progress, s_updatedAt := clock s,
                          s_status := InProgress\<rparr>)\<rparr>))"

definition sessionOutput :: "string \<Rightarrow> state OutputManager" where
  "sessionOutput sessionId =
     \<lparr>headless = True,
      onOutput = Some (session_onOutput sessionId),
      onProgress = Some (session_onProgress sessionId)\<rparr>"

text \<open>\<open>enhancedQuery\<close> (lines 184-186); an empty string is falsy.\<close>

definition enhancedQuery :: "string \<Rightarrow> string option \<Rightarrow> string" where
  "enhancedQuery query additionalNotes =
     (case additionalNotes of
        None \<Rightarrow> query
      | Some notes \<Rightarrow>
          if notes = [] then query
          else query @ ''\<newline>\<newline>Additional Context:\<newline>'' @ notes)"

definition deepResearchArgs :: "StartResearchRequest \<Rightarrow> DeepResearchArgs" where
  "deepResearchArgs v =
     \<lparr>dr_query = enhancedQuery (rq_query v) (rq_additionalNotes v),
      dr_breadth = (case rq_breadth v of None \<Rightarrow> 4 | Some b \<Rightarrow> b),
      dr_depth = (case rq_depth v of None \<Rightarrow> 2 | Some d \<Rightarrow> d),
      dr_model = rq_model v,
      dr_concurrency = rq_concurrency v,
      dr_followUpQuestions = rq_followUpQuestions v\<rparr>"

definition newSession :: "string \<Rightarrow> nat \<Rightarrow> StartResearchRequest \<Rightarrow> ResearchSession" where
  "newSession sessionId now v =
     \<lparr>s_id = sessionId, s_status = Pending, s_query = rq_query v,
      s_breadth = (case rq_breadth v of None \<Rightarrow> 4 | Some b \<Rightarrow> b),
      s_depth = (case rq_depth v of None \<Rightarrow> 2 | Some d \<Rightarrow> d),
      s_additionalNotes = rq_additionalNotes v,
      s_mainPromptNotes = rq_mainPromptNotes v,
      s_progress = None, s_results = None, s_error = None,
      s_createdAt = now, s_updatedAt = now\<rparr>"

text \<open>
  The route, behind the \<open>authenticate\<close> middleware. \<open>uuid\<close> is the value of
  \<open>uuidv4()\<close>. A \<open>ZodError\<close> goes to \<open>next(error)\<close> and so to \<open>errorHandler\<close>,
  which answers 500.
\<close>

definition postResearch :: "env \<Rightarrow> string option \<Rightarrow> json \<Rightarrow> string \<Rightarrow> state \<Rightarrow> response \<times> state" where
  "postResearch e apiKey body uuid s =
     (case authenticate e apiKey of
        Some rejection \<Rightarrow> (rejection, s)
      | None \<Rightarrow>
          (case startResearchSchema_parse (isUrl e) body of
             None \<Rightarrow> (HttpError 500 ''Internal server error'', s)
           | Some v \<Rightarrow>
               (HttpCreated uuid Pending,
                s\<lparr>sessions := (sessions s)(uuid \<mapsto> newSession uuid (clock s) v),
                  tasks := (tasks s)(uuid \<mapsto> deepResearchArgs v)\<rparr>)))"

text \<open>\<open>GET /api/research/:sessionId\<close> (lines 246-270).\<close>

definition getResearch :: "env \<Rightarrow> string option \<Rightarrow> string \<Rightarrow> state \<Rightarrow> response" where
  "getResearch e apiKey sessionId s =
     (case authenticate e apiKey of
        Some rejection \<Rightarrow> rejection
      | None \<Rightarrow>
          if sessionId = [] then HttpError 400 ''Session ID is required''
          else (case sessions s sessionId of
                  None \<Rightarrow> HttpError 404 ''Session not found''
                | Some session \<Rightarrow>
                    HttpSession (s_id session) (s_status session) (s_progress session)
                      (s_results session) (s_error session)))"

text \<open>
  What a promise is rejected with, as far as \<open>.catch\<close> looks at it: a value with a
  \<open>message\<close> (an \<open>Error\<close>), a value without one (a thrown string, a plain
  object), for which \<open>error.message\<close> is \<open>undefined\<close>, or \<open>null\<close> or
  \<open>undefined\<close> itself, on which reading \<open>error.message\<close> throws.
\<close>

datatype rejection = Message string | NoMessage | Nullish

fun messageOf :: "rejection \<Rightarrow> string option" where
  "messageOf (Message m) = Some m"
| "messageOf NoMessage = None"
| "messageOf Nullish = None"

text \<open>
  How the promise chain \<open>deepResearch(...).then(...).catch(...)\<close> ends. Both
  \<open>deepResearch\<close> and \<open>writeFinalReport\<close> live in deep-research.ts and call external
  services, so their outcomes are inputs: the research is rejected, or it resolves and the
  report is rejected, or both resolve.
\<close>

datatype outcome =
    ResearchFailed rejection
  | ReportFailed ResearchResult rejection
  | Succeeded ResearchResult string

definition writeFinalReportArgs :: "DeepResearchArgs \<Rightarrow> ResearchResult \<Rightarrow> WriteFinalReportArgs" where
  "writeFinalReportArgs task results =
     \<lparr>wr_prompt = dr_query task, wr_learnings = learnings results,
      wr_visitedUrls = visitedUrls results, wr_model = dr_model task\<rparr>"

definition logReportCall :: "string \<Rightarrow> ResearchResult \<Rightarrow> state \<Rightarrow> state" where
  "logReportCall sessionId results s =
     (case tasks s sessionId of
        None \<Rightarrow> s
      | Some task \<Rightarrow>
          s\<lparr>reportCalls := reportCalls s @ [(sessionId, writeFinalReportArgs task results)]\<rparr>)"

text \<open>The body of \<open>.then\<close> after the report has been written (lines 206-220).\<close>

definition session_completed :: "string \<Rightarrow> ResearchResult \<Rightarrow> string \<Rightarrow> state \<Rightarrow> state" where
  "session_completed sessionId results rep s =
     (case sessions s sessionId of
        None \<Rightarrow> s
      | Some session \<Rightarrow>
          (let r = \<lparr>learnings = learnings results, visitedUrls = visitedUrls results,
                    report = Some rep\<rparr>
           in broadcast sessionId (UCompleted r)
                (s\<lparr>sessions := (sessions s)(sessionId \<mapsto>
                     session\<lparr>s_results := Some r, s_status := Completed,
                              s_updatedAt := clock s\<rparr>)\<rparr>)))"

text \<open>
  The body of \<open>.catch\<close> (lines 221-234). The status is assigned first; the next
  statement reads \<open>error.message\<close>, and when that throws the rest of the callback does
  not run.
\<close>

definition session_failed :: "string \<Rightarrow> rejection \<Rightarrow> state \<Rightarrow> state" where
  "session_failed sessionId error s =
     (case sessions s sessionId of
        None \<Rightarrow> s
      | Some session \<Rightarrow>
          (case error of
             Nullish \<Rightarrow>
               s\<lparr>sessions := (sessions s)(sessionId \<mapsto> session\<lparr>s_status := Error\<rparr>)\<rparr>
           | _ \<Rightarrow>
               broadcast sessionId (UError (messageOf error))
                 (s\<lparr>sessions := (sessions s)(sessionId \<mapsto>
                      session\<lparr>s_status := Error, s_error := messageOf error,
                               s_updatedAt := clock s\<rparr>)\<rparr>)))"

definition settle :: "string \<Rightarrow> outcome \<Rightarrow> state \<Rightarrow> state" where
  "settle sessionId out s =
     (case out of
        ResearchFailed error \<Rightarrow> session_failed sessionId error s
      | ReportFailed results error \<Rightarrow>
          session_failed sessionId error (logReportCall sessionId results s)
      | Succeeded results rep \<Rightarrow>
          session_completed sessionId results rep (logReportCall sessionId results s))"

section \<open>Executions of the server\<close>

text \<open>
  One event is one run of a handler to completion (the process is single-threaded):
  a request to create a session, a socket connecting or closing, the research of a
  session reporting progress, a call of \<open>log\<close> on the session's output manager (the
  event that its \<open>onOutput\<close> callback is written for), the session's promise chain
  settling, and time passing.
\<close>

datatype event =
    PostResearch "string option" json string
  | WsConnect ws "string option" urlQuery
  | WsClose ws string
  | UpdateProgress string ResearchProgress
  | Log string string
  | Settled string outcome
  | Tick nat

fun step :: "env \<Rightarrow> event \<Rightarrow> state \<Rightarrow> state" where
  "step e (PostResearch apiKey body uuid) s = snd (postResearch e apiKey body uuid s)"
| "step e (WsConnect w apiKey url) s = wsConnection e w apiKey url s"
| "step e (WsClose w sessionId) s = wsOnClose sessionId w s"
| "step e (UpdateProgress sessionId progress) s =
     OutputManager_updateProgress (sessionOutput sessionId) progress s"
| "step e (Log sessionId message) s = OutputManager_log (sessionOutput sessionId) message s"
| "step e (Settled sessionId out) s = settle sessionId out s"
| "step e (Tick n) s = s\<lparr>clock := clock s + n\<rparr>"


definition terminal :: "status \<Rightarrow> bool" where
  "terminal st = (st = Completed \<or> st = Error)"

text \<open>The research of a session is still under way: the session exists and its promise
  chain has not settled.\<close>

definition running :: "state \<Rightarrow> string \<Rightarrow> bool" where
  "running s sessionId =
     (case sessions s sessionId of None \<Rightarrow> False | Some session \<Rightarrow> \<not> terminal (s_status session))"

text \<open>
  What the surroundings guarantee of an event: \<open>uuidv4()\<close> returns an identifier not in
  use; a connecting socket is a new object; a promise chain settles once; and the
  research calls back only while it runs, before its promise settles (it awaits its
  branches before it returns).
\<close>

fun admissible :: "event \<Rightarrow> state \<Rightarrow> bool" where
  "admissible (PostResearch apiKey body uuid) s = (sessions s uuid = None)"
| "admissible (WsConnect w apiKey url) s =
     (w \<notin> fst ` set (sent s) \<and> w \<notin> fst ` set (closed s))"
| "admissible (WsClose w sessionId) s = True"
| "admissible (UpdateProgress sessionId progress) s = running s sessionId"
| "admissible (Log sessionId message) s = running s sessionId"
| "admissible (Settled sessionId out) s = running s sessionId"
| "admissible (Tick n) s = True"

inductive reachable :: "env \<Rightarrow> state \<Rightarrow> bool" for e :: env where
  reachable_init: "reachable e initialState"
| reachable_step: "reachable e s \<Longrightarrow> admissible ev s \<Longrightarrow> reachable e (step e ev s)"

text \<open>
  The executions in which, besides, every rejection carries a message, as the rejection
  with an \<open>Error\<close> does.
\<close>

fun carriesMessage :: "event \<Rightarrow> bool" where
  "carriesMessage (Settled sessionId (ResearchFailed error)) = (messageOf error \<noteq> None)"
| "carriesMessage (Settled sessionId (ReportFailed results error)) = (messageOf error \<noteq> None)"
| "carriesMessage ev = True"

inductive reachableWithMessages :: "env \<Rightarrow> state \<Rightarrow> bool" for e :: env where
  withMessages_init: "reachableWithMessages e initialState"
| withMessages_step:
    "reachableWithMessages e s \<Longrightarrow> admissible ev s \<Longrightarrow> carriesMessage ev \<Longrightarrow>
     reachableWithMessages e (step e ev s)"


definition statusRank :: "status \<Rightarrow> nat" where
  "statusRank st = (case st of Pending \<Rightarrow> 0 | InProgress \<Rightarrow> 1 | Completed \<Rightarrow> 2 | Error \<Rightarrow> 2)"


text \<open>The sockets an event may write to.\<close>

definition recipients :: "event \<Rightarrow> state \<Rightarrow> ws set" where
  "recipients ev s =
     (case ev of
        WsConnect w apiKey url \<Rightarrow> {w}
      | UpdateProgress sessionId progress \<Rightarrow> set (subscribersOf s sessionId)
      | Log sessionId message \<Rightarrow> set (subscribersOf s sessionId)
      | Settled sessionId out \<Rightarrow> set (subscribersOf s sessionId)
      | _ \<Rightarrow> {})"

text \<open>The session parameter of an attach names a session: it is present, not empty, and
  in the registry.\<close>

definition validSessionId :: "state \<Rightarrow> string option \<Rightarrow> bool" where
  "validSessionId s sessionId =
     (case sessionId of None \<Rightarrow> False | Some sid \<Rightarrow> sid \<noteq> [] \<and> sessions s sid \<noteq> None)"

text \<open>The invariants of the reachable states.\<close>

definition sessionInv :: "ResearchSession \<Rightarrow> bool" where
  "sessionInv x =
     (((s_results x \<noteq> None) = (s_status x = Completed)) \<and>
      (s_error x \<noteq> None \<longrightarrow> s_status x = Error) \<and>
      (s_status x = Pending \<longrightarrow> s_progress x = None) \<and>
      (s_status x = InProgress \<longrightarrow> s_progress x \<noteq> None))"

definition subscribersInv :: "state \<Rightarrow> bool" where
  "subscribersInv s =
     ((\<forall>sid w. w \<in> set (subscribersOf s sid) \<longrightarrow> w \<in> fst ` set (sent s)) \<and>
      (\<forall>a b w. w \<in> set (subscribersOf s a) \<and> w \<in> set (subscribersOf s b) \<longrightarrow> a = b))"

section \<open>A worked session\<close>

text \<open>
  One session, followed through the executions that the theorems below are tried on:
  created, attached to by socket 7, one progress update, and then each of the three ways
  its promise chain can end.
\<close>

definition exampleEnv :: env where
  "exampleEnv = \<lparr>API_KEY = Some ''secret'', isUrl = (\<lambda>u. take 4 u = ''http'')\<rparr>"

definition exampleBody :: json where
  "exampleBody =
     JObj [(''query'', JStr ''quantum computing''), (''breadth'', JNum 2), (''depth'', JNum 1)]"

definition exampleNotesBody :: json where
  "exampleNotesBody =
     JObj [(''query'', JStr ''quantum computing''), (''additionalNotes'', JStr ''Use bullet points'')]"

definition exampleMainNotesBody :: json where
  "exampleMainNotesBody =
     JObj [(''query'', JStr ''quantum computing''), (''mainPromptNotes'', JStr ''Focus on hardware'')]"

definition exampleSession :: ResearchSession where
  "exampleSession =
     \<lparr>s_id = ''s1'', s_status = Pending, s_query = ''quantum computing'', s_breadth = 2,
      s_depth = 1, s_additionalNotes = None, s_mainPromptNotes = None, s_progress = None,
      s_results = None, s_error = None, s_createdAt = 0, s_updatedAt = 0\<rparr>"

definition exampleTask :: DeepResearchArgs where
  "exampleTask =
     \<lparr>dr_query = ''quantum computing'', dr_breadth = 2, dr_depth = 1, dr_model = None,
      dr_concurrency = None, dr_followUpQuestions = None\<rparr>"

definition exampleZero :: ResearchProgress where
  "exampleZero =
     \<lparr>currentDepth = 0, totalDepth = 1, currentBreadth = 0, totalBreadth = 2,
      currentQuery = None, totalQueries = 0, completedQueries = 0\<rparr>"

definition exampleProgress :: ResearchProgress where
  "exampleProgress =
     \<lparr>currentDepth = 1, totalDepth = 1, currentBreadth = 2, totalBreadth = 2,
      currentQuery = Some ''qubit error rates'', totalQueries = 2, completedQueries = 1\<rparr>"

definition exampleResult :: ResearchResult where
  "exampleResult =
     \<lparr>learnings = [''Qubits decohere''], visitedUrls = [''https://example.org/a'']\<rparr>"

definition exampleSessionResults :: SessionResults where
  "exampleSessionResults =
     \<lparr>learnings = [''Qubits decohere''], visitedUrls = [''https://example.org/a''],
      report = Some ''# Report''\<rparr>"

definition exampleCreated :: state where
  "exampleCreated =
     step exampleEnv (PostResearch (Some ''secret'') exampleBody ''s1'') initialState"

definition exampleAttached :: state where
  "exampleAttached =
     step exampleEnv (WsConnect 7 (Some ''secret'') (UrlParams (Some ''s1''))) exampleCreated"

definition exampleProgressed :: state where
  "exampleProgressed = step exampleEnv (UpdateProgress ''s1'' exampleProgress) exampleAttached"

definition exampleCompleted :: state where
  "exampleCompleted =
     step exampleEnv (Settled ''s1'' (Succeeded exampleResult ''# Report'')) exampleProgressed"

definition exampleFailed :: state where
  "exampleFailed =
     step exampleEnv (Settled ''s1'' (ResearchFailed (Message ''all branches failed'')))
       exampleProgressed"

definition exampleReportFailed :: state where
  "exampleReportFailed =
     step exampleEnv (Settled ''s1'' (ReportFailed exampleResult (Message ''report failed'')))
       exampleProgressed"


section \<open>What each handler does to the state\<close>

subsection \<open>The session registry\<close>

lemma updateProgress_sessionOutput [simp]:
  "OutputManager_updateProgress (sessionOutput sid) p s = session_onProgress sid p s"
  by (simp add: OutputManager_updateProgress_def sessionOutput_def)

lemma log_sessionOutput [simp]:
  "OutputManager_log (sessionOutput sid) m s = session_onOutput sid m s"
  by (simp add: OutputManager_log_def sessionOutput_def)

lemma sessions_ws_send [simp]: "sessions (ws_send w u s) = sessions s"
  by (simp add: ws_send_def)

lemma sessions_ws_close [simp]: "sessions (ws_close w c r s) = sessions s"
  by (simp add: ws_close_def)

lemma sessions_broadcast [simp]: "sessions (broadcast sid u s) = sessions s"
  by (simp add: broadcast_def split: option.splits)

lemma sessions_addSubscriber [simp]: "sessions (addSubscriber sid w s) = sessions s"
  by (simp add: addSubscriber_def Let_def)

lemma sessions_logReportCall [simp]: "sessions (logReportCall sid r s) = sessions s"
  by (simp add: logReportCall_def split: option.splits)

lemma clock_logReportCall [simp]: "clock (logReportCall sid r s) = clock s"
  by (simp add: logReportCall_def split: option.splits)

lemma sessions_wsConnection [simp]: "sessions (wsConnection e w k url s) = sessions s"
  by (simp add: wsConnection_def split: urlQuery.splits option.splits)

lemma sessions_wsOnClose [simp]: "sessions (wsOnClose sid w s) = sessions s"
  by (simp add: wsOnClose_def split: option.splits)

lemma sessions_onOutput [simp]: "sessions (session_onOutput sid m s) = sessions s"
  by (simp add: session_onOutput_def split: option.splits)

lemma sessions_onProgress:
  "sessions (session_onProgress sid p s) =
     (case sessions s sid of
        None \<Rightarrow> sessions s
      | Some x \<Rightarrow> (sessions s)(sid \<mapsto>
          x\<lparr>s_progress := Some p, s_updatedAt := clock s, s_status := InProgress\<rparr>))"
  by (simp add: session_onProgress_def split: option.splits)

lemma sessions_failed:
  "sessions (session_failed sid r s) =
     (case sessions s sid of
        None \<Rightarrow> sessions s
      | Some x \<Rightarrow> (sessions s)(sid \<mapsto>
          (case r of
             Nullish \<Rightarrow> x\<lparr>s_status := Error\<rparr>
           | _ \<Rightarrow> x\<lparr>s_status := Error, s_error := messageOf r, s_updatedAt := clock s\<rparr>)))"
  by (simp add: session_failed_def split: option.splits rejection.splits)

lemma sessions_completed:
  "sessions (session_completed sid r rep s) =
     (case sessions s sid of
        None \<Rightarrow> sessions s
      | Some x \<Rightarrow> (sessions s)(sid \<mapsto>
          x\<lparr>s_results := Some \<lparr>learnings = learnings r, visitedUrls = visitedUrls r,
                                  report = Some rep\<rparr>,
             s_status := Completed, s_updatedAt := clock s\<rparr>))"
  by (simp add: session_completed_def Let_def split: option.splits)

lemma sessions_settle:
  "sessions (settle sid out s) =
     (case sessions s sid of
        None \<Rightarrow> sessions s
      | Some x \<Rightarrow> (sessions s)(sid \<mapsto>
          (case out of
             ResearchFailed Nullish \<Rightarrow> x\<lparr>s_status := Error\<rparr>
           | ResearchFailed m \<Rightarrow>
               x\<lparr>s_status := Error, s_error := messageOf m, s_updatedAt := clock s\<rparr>
           | ReportFailed r Nullish \<Rightarrow> x\<lparr>s_status := Error\<rparr>
           | ReportFailed r m \<Rightarrow>
               x\<lparr>s_status := Error, s_error := messageOf m, s_updatedAt := clock s\<rparr>
           | Succeeded r rep \<Rightarrow>
               x\<lparr>s_results := Some \<lparr>learnings = learnings r, visitedUrls = visitedUrls r,
                                       report = Some rep\<rparr>,
                  s_status := Completed, s_updatedAt := clock s\<rparr>)))"
  by (simp add: settle_def sessions_failed sessions_completed
        split: option.splits outcome.splits rejection.splits)

lemma sessions_postResearch:
  "sessions (snd (postResearch e k body uuid s)) = sessions s \<or>
   (\<exists>v. sessions (snd (postResearch e k body uuid s)) =
          (sessions s)(uuid \<mapsto> newSession uuid (clock s) v))"
  by (auto simp: postResearch_def split: option.splits)

subsection \<open>Result, error and snapshot follow the status\<close>

lemma sessionInv_newSession: "sessionInv (newSession uuid now v)"
  by (simp add: sessionInv_def newSession_def)

lemma step_sessionInv:
  assumes inv: "\<And>sid x. sessions s sid = Some x \<Longrightarrow> sessionInv x"
    and adm: "admissible ev s"
    and look: "sessions (step e ev s) sid = Some x"
  shows "sessionInv x"
proof (cases ev)
  case (PostResearch apiKey body uuid)
  then show ?thesis using inv look sessions_postResearch[of e apiKey body uuid s]
    by (auto simp: sessionInv_newSession split: if_splits)
next
  case (UpdateProgress sessionId progress)
  then show ?thesis using inv[of sessionId] inv[of sid] look adm
    by (auto simp: sessions_onProgress running_def terminal_def sessionInv_def
             split: option.splits if_splits)
next
  case (Settled sessionId out)
  then show ?thesis using inv[of sessionId] inv[of sid] look adm
    by (cases out)
       (auto simp: sessions_settle running_def terminal_def sessionInv_def
             split: option.splits if_splits rejection.splits)
qed (use inv look in \<open>auto\<close>)

lemma reachable_sessionInv:
  "reachable e s \<Longrightarrow> sessions s sid = Some x \<Longrightarrow> sessionInv x"
proof (induction arbitrary: sid x rule: reachable.induct)
  case reachable_init
  then show ?case by (simp add: initialState_def)
next
  case (reachable_step s ev)
  then show ?case using step_sessionInv by blast
qed

subsection \<open>Subscriber sets\<close>

lemma subscribersOf_cong:
  "progressSubscribers s' = progressSubscribers s \<Longrightarrow> subscribersOf s' = subscribersOf s"
  by (simp add: subscribersOf_def fun_eq_iff)

lemma subs_ws_send [simp]: "progressSubscribers (ws_send w u s) = progressSubscribers s"
  by (simp add: ws_send_def)

lemma subs_ws_close [simp]: "progressSubscribers (ws_close w c r s) = progressSubscribers s"
  by (simp add: ws_close_def)

lemma subs_broadcast [simp]: "progressSubscribers (broadcast sid u s) = progressSubscribers s"
  by (simp add: broadcast_def split: option.splits)

lemma subs_logReportCall [simp]: "progressSubscribers (logReportCall sid r s) = progressSubscribers s"
  by (simp add: logReportCall_def split: option.splits)

lemma subs_onOutput [simp]: "progressSubscribers (session_onOutput sid m s) = progressSubscribers s"
  by (simp add: session_onOutput_def split: option.splits)

lemma subs_onProgress [simp]: "progressSubscribers (session_onProgress sid p s) = progressSubscribers s"
  by (simp add: session_onProgress_def split: option.splits)

lemma subs_failed [simp]: "progressSubscribers (session_failed sid r s) = progressSubscribers s"
  by (simp add: session_failed_def split: option.splits rejection.splits)

lemma subs_completed [simp]: "progressSubscribers (session_completed sid r rep s) = progressSubscribers s"
  by (simp add: session_completed_def Let_def split: option.splits)

lemma subs_settle [simp]: "progressSubscribers (settle sid out s) = progressSubscribers s"
  by (simp add: settle_def split: outcome.splits)

lemma subs_postResearch [simp]:
  "progressSubscribers (snd (postResearch e k body uuid s)) = progressSubscribers s"
  by (simp add: postResearch_def split: option.splits)

lemma subscribersOf_addSubscriber:
  "subscribersOf (addSubscriber sid w s) sid' =
     (if sid' = sid
      then (if w \<in> set (subscribersOf s sid) then subscribersOf s sid else subscribersOf s sid @ [w])
      else subscribersOf s sid')"
  by (auto simp: addSubscriber_def subscribersOf_def Let_def split: option.splits)

lemma subscribersOf_wsOnClose:
  "subscribersOf (wsOnClose sid w s) sid' =
     (if sid' = sid then removeAll w (subscribersOf s sid) else subscribersOf s sid')"
  by (auto simp: wsOnClose_def subscribersOf_def split: option.splits)

subsection \<open>Messages sent\<close>

lemma sent_broadcast:
  "sent (broadcast sid u s) = sent s @ map (\<lambda>w. (w, u)) (subscribersOf s sid)"
  by (simp add: broadcast_def subscribersOf_def split: option.splits)

lemma sent_ws_send: "sent (ws_send w u s) = sent s @ [(w, u)]"
  by (simp add: ws_send_def)

lemma sent_ws_close [simp]: "sent (ws_close w c r s) = sent s"
  by (simp add: ws_close_def)

lemma sent_addSubscriber [simp]: "sent (addSubscriber sid w s) = sent s"
  by (simp add: addSubscriber_def Let_def)

lemma sent_logReportCall [simp]: "sent (logReportCall sid r s) = sent s"
  by (simp add: logReportCall_def split: option.splits)

lemma sent_wsOnClose [simp]: "sent (wsOnClose sid w s) = sent s"
  by (simp add: wsOnClose_def split: option.splits)

lemma sent_postResearch [simp]: "sent (snd (postResearch e k body uuid s)) = sent s"
  by (simp add: postResearch_def split: option.splits)

text \<open>Every step appends to the log, and only messages for the event's recipients.\<close>

lemma sent_step:
  "\<exists>ms. sent (step e ev s) = sent s @ ms \<and> fst ` set ms \<subseteq> recipients ev s"
proof (cases ev)
  case (WsConnect w apiKey url)
  then show ?thesis
    by (auto simp: recipients_def wsConnection_def sent_ws_send
          split: urlQuery.splits option.splits)
next
  case (UpdateProgress sid p)
  then show ?thesis
    by (auto simp: recipients_def session_onProgress_def sent_broadcast
          subscribersOf_cong[of "_\<lparr>sessions := _\<rparr>"] split: option.splits)
next
  case (Log sid m)
  then show ?thesis
    by (auto simp: recipients_def session_onOutput_def sent_broadcast split: option.splits)
next
  case (Settled sid out)
  then show ?thesis
    by (cases out)
       (auto simp: recipients_def settle_def session_failed_def session_completed_def Let_def
          sent_broadcast subscribersOf_cong[of "_\<lparr>sessions := _\<rparr>"]
          subscribersOf_cong[of "logReportCall _ _ _"] split: option.splits rejection.splits)
qed (simp_all add: recipients_def)

lemma received_append:
  "sent s' = sent s @ ms \<Longrightarrow> w \<notin> fst ` set ms \<Longrightarrow> received s' w = received s w"
  by (auto simp: received_def filter_empty_conv)

lemma sent_step_mono: "fst ` set (sent s) \<subseteq> fst ` set (sent (step e ev s))"
  using sent_step[of e ev s] by auto

subsection \<open>Subscribers have been sent their replay, and belong to one session\<close>

lemma subscribersOf_step:
  assumes "w \<in> set (subscribersOf (step e ev s) sid)"
  shows "w \<in> set (subscribersOf s sid) \<or> (\<exists>k. ev = WsConnect w k (UrlParams (Some sid)))"
proof (cases ev)
  case (WsConnect w' apiKey url)
  then show ?thesis using assms
    by (auto simp: wsConnection_def subscribersOf_addSubscriber
          subscribersOf_cong[of "ws_close _ _ _ _"] subscribersOf_cong[of "ws_send _ _ _"]
          split: urlQuery.splits option.splits if_splits)
next
  case (WsClose w' sid')
  then show ?thesis using assms by (auto simp: subscribersOf_wsOnClose split: if_splits)
qed (use assms in \<open>simp_all add: subscribersOf_def\<close>)

lemma attached_has_replay:
  assumes "w \<in> set (subscribersOf (wsConnection e w k url s) sid)"
    and "w \<notin> set (subscribersOf s sid)"
  shows "w \<in> fst ` set (sent (wsConnection e w k url s))"
  using assms
  by (auto simp: wsConnection_def sent_ws_send
        subscribersOf_cong[of "ws_close _ _ _ _"]
        split: urlQuery.splits option.splits if_splits)

lemma step_subscribersInv:
  assumes inv: "subscribersInv s" and adm: "admissible ev s"
  shows "subscribersInv (step e ev s)"
proof -
  have old: "\<And>sid w. w \<in> set (subscribersOf s sid) \<Longrightarrow> w \<in> fst ` set (sent s)"
    and disj: "\<And>a b w. w \<in> set (subscribersOf s a) \<Longrightarrow> w \<in> set (subscribersOf s b) \<Longrightarrow> a = b"
    using inv unfolding subscribersInv_def by blast+
  have fresh: "w \<notin> set (subscribersOf s sid)" if "ev = WsConnect w k url" for w k url sid
    using that adm old[of w sid] by auto
  have one: "w \<in> fst ` set (sent (step e ev s))" if m: "w \<in> set (subscribersOf (step e ev s) sid)" for sid w
  proof (cases "w \<in> set (subscribersOf s sid)")
    case True
    then show ?thesis using old sent_step_mono[of s e ev] by blast
  next
    case False
    then obtain k where ev: "ev = WsConnect w k (UrlParams (Some sid))"
      using subscribersOf_step[OF m] by blast
    show ?thesis using attached_has_replay[of w e k "UrlParams (Some sid)" s sid] m False
      by (simp add: ev)
  qed
  have two: "a = b"
    if ma: "w \<in> set (subscribersOf (step e ev s) a)" and mb: "w \<in> set (subscribersOf (step e ev s) b)"
    for a b w
  proof (cases "\<exists>k url. ev = WsConnect w k url")
    case True
    then obtain k url where ev: "ev = WsConnect w k url" by blast
    have "w \<notin> set (subscribersOf s a)" "w \<notin> set (subscribersOf s b)"
      using fresh[OF ev] by blast+
    then show ?thesis using subscribersOf_step[OF ma] subscribersOf_step[OF mb] by auto
  next
    case False
    then show ?thesis using subscribersOf_step[OF ma] subscribersOf_step[OF mb] disj by blast
  qed
  show ?thesis unfolding subscribersInv_def using one two by blast
qed

lemma reachable_subscribersInv: "reachable e s \<Longrightarrow> subscribersInv s"
proof (induction rule: reachable.induct)
  case reachable_init
  then show ?case by (simp add: subscribersInv_def subscribersOf_def initialState_def)
next
  case (reachable_step s ev)
  then show ?case by (simp add: step_subscribersInv)
qed

subsection \<open>One step of a session's status, and who hears of it\<close>

lemma status_step:
  assumes adm: "admissible ev s" and look: "sessions s sid = Some x"
  shows "\<exists>x'. sessions (step e ev s) sid = Some x' \<and>
           statusRank (s_status x) \<le> statusRank (s_status x') \<and>
           (terminal (s_status x) \<longrightarrow> s_status x' = s_status x)"
proof (cases ev)
  case (PostResearch apiKey body uuid)
  then have "uuid \<noteq> sid" using adm look by auto
  then show ?thesis using PostResearch look sessions_postResearch[of e apiKey body uuid s]
    by auto
next
  case (UpdateProgress sid' p)
  show ?thesis
  proof (cases "sid' = sid")
    case True
    then show ?thesis using UpdateProgress adm look
      by (cases "s_status x")
         (auto simp: sessions_onProgress running_def terminal_def statusRank_def)
  next
    case False
    then show ?thesis using UpdateProgress look
      by (auto simp: sessions_onProgress split: option.splits)
  qed
next
  case (Settled sid' out)
  show ?thesis
  proof (cases "sid' = sid")
    case True
    then show ?thesis using Settled adm look
      by (cases "s_status x"; cases out)
         (auto simp: sessions_settle running_def terminal_def statusRank_def
               split: rejection.splits)
  next
    case False
    then show ?thesis using Settled look
      by (auto simp: sessions_settle split: option.splits)
  qed
qed (use look in auto)

lemma quiet_step:
  assumes inv: "subscribersInv s" and adm: "admissible ev s"
    and look: "sessions s sid = Some x" and fin: "terminal (s_status x)"
    and sub: "w \<in> set (subscribersOf s sid)"
  shows "received (step e ev s) w = received s w"
proof -
  have old: "w \<in> fst ` set (sent s)"
    and disj: "\<And>b. w \<in> set (subscribersOf s b) \<Longrightarrow> b = sid"
    using inv sub unfolding subscribersInv_def by blast+
  have nrun: "\<not> running s sid" using look fin by (simp add: running_def)
  have "w \<notin> recipients ev s"
  proof (cases ev)
    case (WsConnect w' k url)
    then show ?thesis using adm old by (auto simp: recipients_def)
  next
    case (UpdateProgress sid' p)
    then show ?thesis using adm nrun disj[of sid'] by (auto simp: recipients_def)
  next
    case (Log sid' m)
    then show ?thesis using adm nrun disj[of sid'] by (auto simp: recipients_def)
  next
    case (Settled sid' out)
    then show ?thesis using adm nrun disj[of sid'] by (auto simp: recipients_def)
  qed (simp_all add: recipients_def)
  then show ?thesis using sent_step[of e ev s] received_append[of "step e ev s" s _ w] by blast
qed

subsection \<open>Executions whose rejections carry a message\<close>

lemma withMessages_reachable: "reachableWithMessages e s \<Longrightarrow> reachable e s"
  by (induction rule: reachableWithMessages.induct) (auto intro: reachable.intros)

lemma step_errorMessage:
  assumes inv: "\<And>sid x. sessions s sid = Some x \<Longrightarrow> s_status x = Error \<Longrightarrow> s_error x \<noteq> None"
    and msg: "carriesMessage ev"
    and look: "sessions (step e ev s) sid = Some x" and err: "s_status x = Error"
  shows "s_error x \<noteq> None"
proof (cases ev)
  case (PostResearch apiKey body uuid)
  then show ?thesis using inv look err sessions_postResearch[of e apiKey body uuid s]
    by (auto simp: newSession_def split: if_splits)
next
  case (UpdateProgress sessionId progress)
  then show ?thesis using inv[of sid] look err
    by (auto simp: sessions_onProgress split: option.splits if_splits)
next
  case (Settled sessionId out)
  then show ?thesis using inv[of sid] look err msg
    by (cases out)
       (auto simp: sessions_settle split: option.splits if_splits rejection.splits)
qed (use inv look err in \<open>auto\<close>)

lemma withMessages_errorMessage:
  "reachableWithMessages e s \<Longrightarrow> sessions s sid = Some x \<Longrightarrow> s_status x = Error \<Longrightarrow>
   s_error x \<noteq> None"
proof (induction arbitrary: sid x rule: reachableWithMessages.induct)
  case withMessages_init
  then show ?case by (simp add: initialState_def)
next
  case (withMessages_step s ev)
  then show ?case using step_errorMessage by blast
qed

subsection \<open>Progress events and their snapshots\<close>



section \<open>The worked session, evaluated\<close>

lemma parse_exampleBody:
  "startResearchSchema_parse f exampleBody =
     Some \<lparr>rq_query = ''quantum computing'', rq_breadth = Some 2, rq_depth = Some 1,
       rq_additionalNotes = None, rq_mainPromptNotes = None, rq_model = None,
       rq_concurrency = None, rq_followUpQuestions = None\<rparr>"
  by (simp add: exampleBody_def getProp_def)

lemma authenticate_example: "authenticate exampleEnv (Some ''secret'') = None"
  by (simp add: authenticate_def exampleEnv_def)

lemma authenticateWs_example: "authenticateWs exampleEnv (Some ''secret'')"
  by (simp add: authenticateWs_def exampleEnv_def)

lemma exampleCreated_eq:
  "exampleCreated =
     \<lparr>sessions = [''s1'' \<mapsto> exampleSession], progressSubscribers = Map.empty, sent = [],
      closed = [], tasks = [''s1'' \<mapsto> exampleTask], reportCalls = [], clock = 0\<rparr>"
  by (simp add: exampleCreated_def postResearch_def authenticate_example parse_exampleBody
       newSession_def exampleSession_def exampleTask_def deepResearchArgs_def enhancedQuery_def
       initialState_def)

lemma exampleAttached_eq:
  "exampleAttached =
     \<lparr>sessions = [''s1'' \<mapsto> exampleSession], progressSubscribers = [''s1'' \<mapsto> [7]],
      sent = [(7, UProgress (Some exampleZero))],
      closed = [], tasks = [''s1'' \<mapsto> exampleTask], reportCalls = [], clock = 0\<rparr>"
  by (simp add: exampleAttached_def exampleCreated_eq wsConnection_def authenticateWs_example
       initialUpdate_def addSubscriber_def ws_send_def exampleSession_def exampleZero_def)

lemma exampleProgressed_eq:
  "exampleProgressed =
     \<lparr>sessions = [''s1'' \<mapsto>
        exampleSession\<lparr>s_status := InProgress, s_progress := Some exampleProgress\<rparr>],
      progressSubscribers = [''s1'' \<mapsto> [7]],
      sent = [(7, UProgress (Some exampleZero)), (7, UProgress (Some exampleProgress))],
      closed = [], tasks = [''s1'' \<mapsto> exampleTask], reportCalls = [], clock = 0\<rparr>"
  by (simp add: exampleProgressed_def exampleAttached_eq session_onProgress_def broadcast_def
       exampleSession_def)

lemma exampleCompleted_eq:
  "exampleCompleted =
     \<lparr>sessions = [''s1'' \<mapsto>
        exampleSession\<lparr>s_status := Completed, s_progress := Some exampleProgress,
                       s_results := Some exampleSessionResults\<rparr>],
      progressSubscribers = [''s1'' \<mapsto> [7]],
      sent = [(7, UProgress (Some exampleZero)), (7, UProgress (Some exampleProgress)),
              (7, UCompleted exampleSessionResults)],
      closed = [], tasks = [''s1'' \<mapsto> exampleTask],
      reportCalls = [(''s1'', \<lparr>wr_prompt = ''quantum computing'',
         wr_learnings = [''Qubits decohere''], wr_visitedUrls = [''https://example.org/a''],
         wr_model = None\<rparr>)],
      clock = 0\<rparr>"
  by (simp add: exampleCompleted_def exampleProgressed_eq settle_def session_completed_def
       Let_def logReportCall_def writeFinalReportArgs_def broadcast_def exampleSession_def
       exampleResult_def exampleSessionResults_def exampleTask_def)

lemma exampleFailed_eq:
  "exampleFailed =
     \<lparr>sessions = [''s1'' \<mapsto>
        exampleSession\<lparr>s_status := Error, s_progress := Some exampleProgress,
                       s_error := Some ''all branches failed''\<rparr>],
      progressSubscribers = [''s1'' \<mapsto> [7]],
      sent = [(7, UProgress (Some exampleZero)), (7, UProgress (Some exampleProgress)),
              (7, UError (Some ''all branches failed''))],
      closed = [], tasks = [''s1'' \<mapsto> exampleTask], reportCalls = [], clock = 0\<rparr>"
  by (simp add: exampleFailed_def exampleProgressed_eq settle_def session_failed_def
       broadcast_def exampleSession_def)

lemma exampleReportFailed_eq:
  "exampleReportFailed =
     \<lparr>sessions = [''s1'' \<mapsto>
        exampleSession\<lparr>s_status := Error, s_progress := Some exampleProgress,
                       s_error := Some ''report failed''\<rparr>],
      progressSubscribers = [''s1'' \<mapsto> [7]],
      sent = [(7, UProgress (Some exampleZero)), (7, UProgress (Some exampleProgress)),
              (7, UError (Some ''report failed''))],
      closed = [], tasks = [''s1'' \<mapsto> exampleTask],
      reportCalls = [(''s1'', \<lparr>wr_prompt = ''quantum computing'',
         wr_learnings = [''Qubits decohere''], wr_visitedUrls = [''https://example.org/a''],
         wr_model = None\<rparr>)],
      clock = 0\<rparr>"
  by (simp add: exampleReportFailed_def exampleProgressed_eq settle_def session_failed_def
       logReportCall_def writeFinalReportArgs_def broadcast_def exampleSession_def
       exampleResult_def exampleTask_def)

lemma reachable_exampleCreated: "reachable exampleEnv exampleCreated"
  unfolding exampleCreated_def
  by (rule reachable_step[OF reachable_init]) (simp add: initialState_def)

lemma reachable_exampleAttached: "reachable exampleEnv exampleAttached"
  unfolding exampleAttached_def
  by (rule reachable_step[OF reachable_exampleCreated]) (simp add: exampleCreated_eq)

lemma reachable_exampleProgressed: "reachable exampleEnv exampleProgressed"
  unfolding exampleProgressed_def
  by (rule reachable_step[OF reachable_exampleAttached])
     (simp add: exampleAttached_eq running_def terminal_def exampleSession_def)

lemma reachable_exampleCompleted: "reachable exampleEnv exampleCompleted"
  unfolding exampleCompleted_def
  by (rule reachable_step[OF reachable_exampleProgressed])
     (simp add: exampleProgressed_eq running_def terminal_def exampleSession_def)

lemma withMessages_exampleCreated: "reachableWithMessages exampleEnv exampleCreated"
  unfolding exampleCreated_def
  by (rule withMessages_step[OF withMessages_init]) (simp_all add: initialState_def)

lemma withMessages_exampleAttached: "reachableWithMessages exampleEnv exampleAttached"
  unfolding exampleAttached_def
  by (rule withMessages_step[OF withMessages_exampleCreated]) (simp_all add: exampleCreated_eq)

lemma withMessages_exampleProgressed: "reachableWithMessages exampleEnv exampleProgressed"
  unfolding exampleProgressed_def
  by (rule withMessages_step[OF withMessages_exampleAttached])
     (simp_all add: exampleAttached_eq running_def terminal_def exampleSession_def)

lemma withMessages_exampleCompleted: "reachableWithMessages exampleEnv exampleCompleted"
  unfolding exampleCompleted_def
  by (rule withMessages_step[OF withMessages_exampleProgressed])
     (simp_all add: exampleProgressed_eq running_def terminal_def exampleSession_def)

lemma withMessages_exampleFailed: "reachableWithMessages exampleEnv exampleFailed"
  unfolding exampleFailed_def
  by (rule withMessages_step[OF withMessages_exampleProgressed])
     (simp_all add: exampleProgressed_eq running_def terminal_def exampleSession_def)


section \<open>Replay on attach\<close>

text \<open>
  C1. A subscriber that attaches after its session has reached a terminal state is to
  receive one replay event carrying the terminal data, and never a progress event. The
  connection handler chooses the replay from \<open>results\<close> and \<open>progress\<close> alone and
  has no branch for a session in error. In the worked session the research fails after
  one progress update; socket 8 then attaches, and the one message it receives is a
  progress event with the last snapshot, not the error.
\<close>

theorem replay_after_error_is_progress:
  "map_option s_status (sessions exampleFailed ''s1'') = Some Error \<and>
   map_option s_error (sessions exampleFailed ''s1'') = Some (Some ''all branches failed'') \<and>
   received (step exampleEnv (WsConnect 8 (Some ''secret'') (UrlParams (Some ''s1'')))
      exampleFailed) 8 = [UProgress (Some exampleProgress)]"
  by (simp add: exampleFailed_eq wsConnection_def authenticateWs_example initialUpdate_def
        addSubscriber_def ws_send_def received_def exampleSession_def)

text \<open>
  C8. A subscriber that attaches to a session before any work has started (status
  pending) receives exactly one message, a progress event whose counters are all zero and
  whose totals are the depth and breadth of the session; one that attaches while the
  session is in progress receives exactly one message, the stored snapshot.
\<close>

theorem replay_before_and_during_research:
  assumes "reachable e s" and "authenticateWs e k" and "sid \<noteq> []"
    and "admissible (WsConnect w k (UrlParams (Some sid))) s"
    and "sessions s sid = Some x"
  shows "(s_status x = Pending \<longrightarrow>
            received (step e (WsConnect w k (UrlParams (Some sid))) s) w =
              [UProgress (Some \<lparr>currentDepth = 0, totalDepth = s_depth x, currentBreadth = 0,
                 totalBreadth = s_breadth x, currentQuery = None, totalQueries = 0,
                 completedQueries = 0\<rparr>)]) \<and>
         (s_status x = InProgress \<longrightarrow>
            (\<exists>p. s_progress x = Some p \<and>
               received (step e (WsConnect w k (UrlParams (Some sid))) s) w = [UProgress (Some p)]))"
proof -
  have inv: "sessionInv x" using reachable_sessionInv[OF assms(1,5)] .
  have none: "received s w = []"
    using assms(4) by (auto simp: received_def filter_empty_conv)
  have rcv: "received (step e (WsConnect w k (UrlParams (Some sid))) s) w = [initialUpdate x]"
    using assms(2,3,5) none
    by (simp add: wsConnection_def received_def sent_ws_send)
  show ?thesis using inv unfolding rcv
    by (auto simp: sessionInv_def initialUpdate_def split: option.splits)
qed

theorem replay_before_and_during_research_witness:
  "received (step exampleEnv (WsConnect 7 (Some ''secret'') (UrlParams (Some ''s1'')))
      exampleCreated) 7 = [UProgress (Some exampleZero)] \<and>
   received (step exampleEnv (WsConnect 8 (Some ''secret'') (UrlParams (Some ''s1'')))
      exampleProgressed) 8 = [UProgress (Some exampleProgress)]"
proof -
  have a1: "admissible (WsConnect 7 (Some ''secret'') (UrlParams (Some ''s1''))) exampleCreated"
    by (simp add: exampleCreated_eq)
  have l1: "sessions exampleCreated ''s1'' = Some exampleSession"
    by (simp add: exampleCreated_eq)
  have a2: "admissible (WsConnect 8 (Some ''secret'') (UrlParams (Some ''s1''))) exampleProgressed"
    by (simp add: exampleProgressed_eq)
  have l2: "sessions exampleProgressed ''s1'' =
      Some (exampleSession\<lparr>s_status := InProgress, s_progress := Some exampleProgress\<rparr>)"
    by (simp add: exampleProgressed_eq)
  have ne: "''s1'' \<noteq> []" by simp
  show ?thesis
    using replay_before_and_during_research
            [OF reachable_exampleCreated authenticateWs_example ne a1 l1]
          replay_before_and_during_research
            [OF reachable_exampleProgressed authenticateWs_example ne a2 l2]
    by (simp add: exampleSession_def exampleZero_def)
qed



text \<open>
  What \<open>onOutput\<close> would send if \<open>log\<close> were called before the first progress
  update: a progress event without data. This is the handler on its own; no execution of
  the program contains the call.
\<close>

lemma onOutput_before_progress:
  "map_option s_progress (sessions exampleAttached ''s1'') = Some None \<and>
   received (step exampleEnv (Log ''s1'' ''Researching'') exampleAttached) 7 =
     [UProgress (Some exampleZero), UProgress None]"
  by (simp add: exampleAttached_eq session_onOutput_def broadcast_def received_def
        exampleSession_def)

section \<open>The session state machine\<close>

text \<open>
  C6, as stated: no operation, in particular no progress update, moves a session out of
  a terminal state, and once it is terminal no further progress event is emitted. The
  \<open>onProgress\<close> handler has no such guard: applied to the completed worked session it
  sets the status back to in-progress and sends socket 7 one more progress event.
\<close>

theorem progress_after_completion_counterexample:
  "map_option s_status (sessions exampleCompleted ''s1'') = Some Completed \<and>
   map_option s_status
     (sessions (step exampleEnv (UpdateProgress ''s1'' exampleProgress) exampleCompleted) ''s1'')
     = Some InProgress \<and>
   received (step exampleEnv (UpdateProgress ''s1'' exampleProgress) exampleCompleted) 7 =
     received exampleCompleted 7 @ [UProgress (Some exampleProgress)]"
  by (simp add: exampleCompleted_eq session_onProgress_def broadcast_def received_def
        exampleSession_def)

text \<open>
  C6, amended: in the executions where the research of a session calls back only before
  its promise chain settles, every step leaves the status of every session where it is or
  moves it forward in the order pending, in-progress, then completed or error; the status
  of a terminal session never changes again, and no step sends anything to the sockets
  subscribed to it.
\<close>

theorem status_walk_monotone:
  assumes "reachable e s" and "admissible ev s" and "sessions s sid = Some x"
  shows "\<exists>x'. sessions (step e ev s) sid = Some x' \<and>
           statusRank (s_status x) \<le> statusRank (s_status x') \<and>
           (terminal (s_status x) \<longrightarrow>
              s_status x' = s_status x \<and>
              (\<forall>w \<in> set (subscribersOf s sid). received (step e ev s) w = received s w))"
proof -
  obtain x' where x': "sessions (step e ev s) sid = Some x'"
      "statusRank (s_status x) \<le> statusRank (s_status x')"
      "terminal (s_status x) \<longrightarrow> s_status x' = s_status x"
    using status_step[OF assms(2,3)] by blast
  have "\<forall>w \<in> set (subscribersOf s sid). received (step e ev s) w = received s w"
    if "terminal (s_status x)"
    using quiet_step[OF reachable_subscribersInv[OF assms(1)] assms(2,3) that] by blast
  then show ?thesis using x' by blast
qed

theorem status_walk_monotone_witness:
  "\<exists>x'. sessions (step exampleEnv (WsConnect 8 (Some ''secret'') (UrlParams (Some ''s1'')))
            exampleCompleted) ''s1'' = Some x' \<and>
      s_status x' = Completed \<and>
      received (step exampleEnv (WsConnect 8 (Some ''secret'') (UrlParams (Some ''s1'')))
            exampleCompleted) 7 = received exampleCompleted 7"
proof -
  have a: "admissible (WsConnect 8 (Some ''secret'') (UrlParams (Some ''s1''))) exampleCompleted"
    by (simp add: exampleCompleted_eq)
  have l: "sessions exampleCompleted ''s1'' =
      Some (exampleSession\<lparr>s_status := Completed, s_progress := Some exampleProgress,
                            s_results := Some exampleSessionResults\<rparr>)"
    by (simp add: exampleCompleted_eq)
  have sub: "subscribersOf exampleCompleted ''s1'' = [7]"
    by (simp add: exampleCompleted_eq subscribersOf_def)
  show ?thesis
    using status_walk_monotone[OF reachable_exampleCompleted a l]
    by (auto simp: terminal_def sub)
qed

text \<open>
  C7, as stated: at every point of a session's lifetime the result is present exactly
  when the status is completed, and the error message exactly when the status is error.
  The handlers do not keep the three fields together by themselves. A progress update on
  the completed worked session leaves its results in place under the status in-progress;
  and a research that is rejected with a value that has no message leaves the session in
  error without an error message.
\<close>

theorem result_and_error_match_status_counterexample:
  "map_option s_status
     (sessions (step exampleEnv (UpdateProgress ''s1'' exampleProgress) exampleCompleted) ''s1'')
     = Some InProgress \<and>
   map_option s_results
     (sessions (step exampleEnv (UpdateProgress ''s1'' exampleProgress) exampleCompleted) ''s1'')
     = Some (Some exampleSessionResults) \<and>
   map_option s_status
     (sessions (step exampleEnv (Settled ''s1'' (ResearchFailed NoMessage)) exampleProgressed)
        ''s1'')
     = Some Error \<and>
   map_option s_error
     (sessions (step exampleEnv (Settled ''s1'' (ResearchFailed NoMessage)) exampleProgressed)
        ''s1'')
     = Some None"
  by (simp add: exampleCompleted_eq exampleProgressed_eq session_onProgress_def settle_def
        session_failed_def broadcast_def exampleSession_def)

text \<open>
  C7, amended: in the executions where the research of a session calls back only before
  its promise chain settles, the chain settles once, and every rejection carries a
  message, at every point the result of a session is present exactly when its status is
  completed, and its error message exactly when its status is error.
\<close>

theorem result_and_error_match_status:
  assumes "reachableWithMessages e s" and "sessions s sid = Some x"
  shows "(s_results x \<noteq> None) = (s_status x = Completed) \<and>
         (s_error x \<noteq> None) = (s_status x = Error)"
  using reachable_sessionInv[OF withMessages_reachable[OF assms(1)] assms(2)]
    withMessages_errorMessage[OF assms]
  by (auto simp: sessionInv_def)

theorem result_and_error_match_status_witness:
  "(\<exists>x. sessions exampleCompleted ''s1'' = Some x \<and> s_status x = Completed \<and>
        s_results x \<noteq> None \<and> s_error x = None) \<and>
   (\<exists>x. sessions exampleFailed ''s1'' = Some x \<and> s_status x = Error \<and>
        s_results x = None \<and> s_error x \<noteq> None)"
proof -
  have c: "sessions exampleCompleted ''s1'' =
      Some (exampleSession\<lparr>s_status := Completed, s_progress := Some exampleProgress,
                            s_results := Some exampleSessionResults\<rparr>)"
    by (simp add: exampleCompleted_eq)
  have f: "sessions exampleFailed ''s1'' =
      Some (exampleSession\<lparr>s_status := Error, s_progress := Some exampleProgress,
                            s_error := Some ''all branches failed''\<rparr>)"
    by (simp add: exampleFailed_eq)
  show ?thesis
    using result_and_error_match_status[OF withMessages_exampleCompleted c]
          result_and_error_match_status[OF withMessages_exampleFailed f] c f
    by simp
qed

text \<open>
  C2, as stated: when the report fails after the research has succeeded, the session
  ends in error and the findings and visited URLs stay available on it. The \<open>.then\<close>
  callback stores the results only after the report has been written, so a failed report
  leaves \<open>results\<close> empty: the worked session ends in error with no results, and a poll
  returns none.
\<close>

theorem report_failure_keeps_findings_counterexample:
  "map_option s_status (sessions exampleReportFailed ''s1'') = Some Error \<and>
   map_option s_results (sessions exampleReportFailed ''s1'') = Some None \<and>
   getResearch exampleEnv (Some ''secret'') ''s1'' exampleReportFailed =
     HttpSession ''s1'' Error (Some exampleProgress) None (Some ''report failed'')"
  by (simp add: exampleReportFailed_eq getResearch_def authenticate_example exampleSession_def)

text \<open>
  C2, amended: when the report fails after the research has succeeded, the session ends
  in error with the message of the failure (none when the rejection carries none), and its
  \<open>results\<close> stay empty: the findings and the visited URLs are not stored on the
  session.
\<close>

theorem report_failure_sets_error_without_results:
  assumes "reachable e s" and "running s sid"
  shows "\<exists>x. sessions (step e (Settled sid (ReportFailed r error)) s) sid = Some x \<and>
           s_status x = Error \<and> s_error x = messageOf error \<and> s_results x = None"
proof -
  obtain x0 where x0: "sessions s sid = Some x0" "\<not> terminal (s_status x0)"
    using assms(2) by (auto simp: running_def split: option.splits)
  have "s_results x0 = None" and "s_error x0 = None"
    using reachable_sessionInv[OF assms(1) x0(1)] x0(2) by (auto simp: sessionInv_def terminal_def)
  then show ?thesis using x0 by (cases error) (simp_all add: sessions_settle)
qed

theorem report_failure_sets_error_without_results_witness:
  "\<exists>x. sessions (step exampleEnv
           (Settled ''s1'' (ReportFailed exampleResult (Message ''report failed'')))
           exampleProgressed) ''s1'' = Some x \<and>
        s_status x = Error \<and> s_error x = Some ''report failed'' \<and> s_results x = None"
proof -
  have r: "running exampleProgressed ''s1''"
    by (simp add: exampleProgressed_eq running_def terminal_def exampleSession_def)
  show ?thesis
    using report_failure_sets_error_without_results
            [OF reachable_exampleProgressed r, of exampleResult "Message ''report failed''"]
    by simp
qed

section \<open>Creating a session\<close>

text \<open>
  C9. A create-session request whose breadth lies outside [1,10] or whose depth lies
  outside [1,5] is rejected before any session is created: the schema refuses the body,
  the answer is an error, and the state (the registry with it) is what it was.
\<close>

theorem out_of_range_rejected_before_create:
  assumes "(getProp kvs ''breadth'' = Some (JNum b) \<and> (b < 1 \<or> 10 < b)) \<or>
           (getProp kvs ''depth'' = Some (JNum d) \<and> (d < 1 \<or> 5 < d))"
  shows "startResearchSchema_parse (isUrl e) (JObj kvs) = None \<and>
         snd (postResearch e apiKey (JObj kvs) uuid s) = s \<and>
         (\<exists>code msg. fst (postResearch e apiKey (JObj kvs) uuid s) = HttpError code msg)"
proof -
  have p: "startResearchSchema_parse (isUrl e) (JObj kvs) = None"
    using assms
    by (cases "z_string_min1 (getProp kvs ''query'')";
        cases "z_number_optional 1 10 (getProp kvs ''breadth'')";
        cases "z_number_optional 1 5 (getProp kvs ''depth'')") auto
  have r: "\<exists>code msg. r = HttpError code msg" if "authenticate e apiKey = Some r" for r
    using that by (auto simp: authenticate_def split: option.splits if_splits)
  show ?thesis using p r
    by (cases "authenticate e apiKey")
       (auto simp: postResearch_def simp del: startResearchSchema_parse.simps)
qed

theorem out_of_range_rejected_before_create_witness:
  "postResearch exampleEnv (Some ''secret'')
      (JObj [(''query'', JStr ''quantum computing''), (''breadth'', JNum 11)]) ''s2''
      exampleCreated = (HttpError 500 ''Internal server error'', exampleCreated) \<and>
   postResearch exampleEnv (Some ''secret'')
      (JObj [(''query'', JStr ''quantum computing''), (''depth'', JNum 0)]) ''s2''
      exampleCreated = (HttpError 500 ''Internal server error'', exampleCreated)"
proof -
  have b: "(getProp [(''query'', JStr ''quantum computing''), (''breadth'', JNum 11)] ''breadth''
              = Some (JNum 11) \<and> ((11::real) < 1 \<or> (10::real) < 11)) \<or>
           (getProp [(''query'', JStr ''quantum computing''), (''breadth'', JNum 11)] ''depth''
              = Some (JNum 0) \<and> ((0::real) < 1 \<or> (5::real) < 0))"
    by (simp add: getProp_def)
  have d: "(getProp [(''query'', JStr ''quantum computing''), (''depth'', JNum 0)] ''breadth''
              = Some (JNum 11) \<and> ((11::real) < 1 \<or> (10::real) < 11)) \<or>
           (getProp [(''query'', JStr ''quantum computing''), (''depth'', JNum 0)] ''depth''
              = Some (JNum 0) \<and> ((0::real) < 1 \<or> (5::real) < 0))"
    by (simp add: getProp_def)
  have p: "startResearchSchema_parse (isUrl exampleEnv) body = None \<Longrightarrow>
           postResearch exampleEnv (Some ''secret'') body ''s2'' exampleCreated =
             (HttpError 500 ''Internal server error'', exampleCreated)" for body
    by (simp add: postResearch_def authenticate_example)
  show ?thesis
    using out_of_range_rejected_before_create
            [OF b, of exampleEnv "Some ''secret''" "''s2''" exampleCreated]
          out_of_range_rejected_before_create
            [OF d, of exampleEnv "Some ''secret''" "''s2''" exampleCreated]
    by (simp add: p)
qed

text \<open>
  C3. The field \<open>additionalNotes\<close> is to influence the formatting of the report only:
  the query handed to the research is the original query. The route appends the notes to
  the query and hands that text to \<open>deepResearch\<close>. For the query
  \<open>quantum computing\<close> with the notes \<open>Use bullet points\<close> the research is started
  on the query followed by the notes.
\<close>

theorem additionalNotes_reach_research_query:
  "map_option dr_query
     (tasks (step exampleEnv (PostResearch (Some ''secret'') exampleNotesBody ''s2'')
        initialState) ''s2'')
   = Some ''quantum computing\<newline>\<newline>Additional Context:\<newline>Use bullet points''"
  by (simp add: postResearch_def authenticate_example exampleNotesBody_def getProp_def
        deepResearchArgs_def enhancedQuery_def initialState_def)

text \<open>
  C4. The field \<open>mainPromptNotes\<close> is to be folded into the query handed to the
  research. The route stores the notes on the session and uses them nowhere else. For
  the query \<open>quantum computing\<close> with the notes \<open>Focus on hardware\<close> the research
  is started on the bare query.
\<close>

theorem mainPromptNotes_absent_from_research_query:
  "map_option dr_query
     (tasks (step exampleEnv (PostResearch (Some ''secret'') exampleMainNotesBody ''s3'')
        initialState) ''s3'')
   = Some ''quantum computing'' \<and>
   map_option s_mainPromptNotes
     (sessions (step exampleEnv (PostResearch (Some ''secret'') exampleMainNotesBody ''s3'')
        initialState) ''s3'')
   = Some (Some ''Focus on hardware'')"
  by (simp add: postResearch_def authenticate_example exampleMainNotesBody_def getProp_def
        deepResearchArgs_def enhancedQuery_def newSession_def initialState_def)

lemma deepResearchArgs_ignores_mainPromptNotes:
  "deepResearchArgs (v\<lparr>rq_mainPromptNotes := m\<rparr>) = deepResearchArgs v"
  by (simp add: deepResearchArgs_def)

section \<open>Refusing a socket\<close>

text \<open>
  C5, as stated: an attach with an invalid or unknown session identifier closes the
  socket with a close code distinct from the one used when authentication fails. Both
  refusals use 1008: on the worked session, socket 8 with a wrong key and socket 9 with
  the right key and an unknown session are closed with the same code.
\<close>

theorem close_codes_distinct_counterexample:
  "map (fst \<circ> snd) (closed (wsConnection exampleEnv 8 (Some ''wrong'')
      (UrlParams (Some ''s1'')) exampleCreated)) = [1008] \<and>
   map (fst \<circ> snd) (closed (wsConnection exampleEnv 9 (Some ''secret'')
      (UrlParams (Some ''nope'')) exampleCreated)) = [1008]"
  by (simp add: wsConnection_def authenticateWs_def exampleEnv_def ws_close_def
        exampleCreated_eq)

text \<open>
  C5, amended: an attach that fails authentication and an attach with an invalid or
  unknown session identifier are both closed with code 1008; they differ in the reason
  text, \<open>Invalid API key\<close> and \<open>Invalid session ID\<close>.
\<close>

theorem attach_rejections_share_close_code:
  "(\<not> authenticateWs e k \<longrightarrow>
      wsConnection e w k url s = ws_close w 1008 ''Invalid API key'' s) \<and>
   (authenticateWs e k \<and> \<not> validSessionId s sessionId \<longrightarrow>
      wsConnection e w k (UrlParams sessionId) s = ws_close w 1008 ''Invalid session ID'' s)"
  by (auto simp: wsConnection_def validSessionId_def split: option.splits)

theorem attach_rejections_share_close_code_witness:
  "wsConnection exampleEnv 8 (Some ''wrong'') (UrlParams (Some ''s1'')) exampleCreated =
     ws_close 8 1008 ''Invalid API key'' exampleCreated \<and>
   wsConnection exampleEnv 9 (Some ''secret'') (UrlParams (Some ''nope'')) exampleCreated =
     ws_close 9 1008 ''Invalid session ID'' exampleCreated"
proof -
  have n: "\<not> authenticateWs exampleEnv (Some ''wrong'')"
    by (simp add: authenticateWs_def exampleEnv_def)
  have v: "\<not> validSessionId exampleCreated (Some ''nope'')"
    by (simp add: validSessionId_def exampleCreated_eq)
  show ?thesis
    using attach_rejections_share_close_code
            [of exampleEnv "Some ''wrong''" 8 "UrlParams (Some ''s1'')" exampleCreated "Some ''s1''"]
          attach_rejections_share_close_code
            [of exampleEnv "Some ''secret''" 9 "UrlParams (Some ''nope'')" exampleCreated "Some ''nope''"]
          n v authenticateWs_example
    by simp
qed

end
